theory Spec2Isabelle
  imports Main
begin

section \<open>Strings\<close>

text \<open>
  A JavaScript string is modelled as a \<^typ>\<open>string\<close> holding its UTF-8 bytes, the
  encoding of \<^verbatim>\<open>index.tsx\<close> itself. Every literal the helpers search for is ASCII, and
  an ASCII byte occurs in well-formed UTF-8 only as the character it denotes, so a substring
  test on the bytes agrees with the test on the UTF-16 code units.
\<close>

text \<open>\<^verbatim>\<open>String.prototype.includes\<close>: \<open>sub\<close> occurs in \<open>s\<close> at some position.\<close>

fun str_includes :: "string \<Rightarrow> string \<Rightarrow> bool" where
  "str_includes [] sub = (sub = [])"
| "str_includes (c # cs) sub = (take (length sub) (c # cs) = sub \<or> str_includes cs sub)"

text \<open>
  \<^verbatim>\<open>toLowerCase\<close> maps the ASCII letters \<open>A\<close>--\<open>Z\<close> and leaves every other byte as it
  is. Of the characters beyond ASCII, only U+0130 and U+212A lower-case to a string with
  an ASCII letter (\<open>i\<close> followed by U+0307, and \<open>k\<close>); neither can complete one of the words
  \<^verbatim>\<open>getWeatherIcon\<close> searches for, so no test made on a lower-cased string depends on
  the characters beyond ASCII.
\<close>

definition toLowerChar :: "char \<Rightarrow> char" where
  "toLowerChar c =
     (let n = (of_char c :: nat) in if 65 \<le> n \<and> n \<le> 90 then char_of (n + 32) else c)"

definition toUpperChar :: "char \<Rightarrow> char" where
  "toUpperChar c =
     (let n = (of_char c :: nat) in if 97 \<le> n \<and> n \<le> 122 then char_of (n - 32) else c)"

definition toLowerCase :: "string \<Rightarrow> string" where
  "toLowerCase s = map toLowerChar s"

text \<open>
  \<^verbatim>\<open>toUpperCase\<close> is the upper-casing of Unicode with its special casing, which may
  replace one character by several. \<open>upperSpecial\<close> lists every character beyond ASCII
  whose upper-casing holds an ASCII letter, with its UTF-8 bytes and those of its
  upper-casing: U+00DF (\<open>SS\<close>), U+0131 (\<open>I\<close>), U+0149 (U+02BC \<open>N\<close>), U+017F (\<open>S\<close>),
  U+01F0 (\<open>J\<close> U+030C), U+1E96 (\<open>H\<close> U+0331), U+1E97 (\<open>T\<close> U+0308), U+1E98
  (\<open>W\<close> U+030A), U+1E99 (\<open>Y\<close> U+030A), U+1E9A (\<open>A\<close> U+02BE) and the ligatures
  U+FB00--U+FB06 (\<open>FF\<close>, \<open>FI\<close>, \<open>FL\<close>, \<open>FFI\<close>, \<open>FFL\<close>, \<open>ST\<close>, \<open>ST\<close>). Every other
  character beyond ASCII upper-cases to characters beyond ASCII; its bytes are left as they
  are, which changes no test for an ASCII letter.
\<close>

definition upperSpecial :: "(string \<times> string) list" where
  "upperSpecial =
     [([CHR 0xC3, CHR 0x9F], ''SS''),
      ([CHR 0xC4, CHR 0xB1], ''I''),
      ([CHR 0xC5, CHR 0x89], [CHR 0xCA, CHR 0xBC, CHR ''N'']),
      ([CHR 0xC5, CHR 0xBF], ''S''),
      ([CHR 0xC7, CHR 0xB0], [CHR ''J'', CHR 0xCC, CHR 0x8C]),
      ([CHR 0xE1, CHR 0xBA, CHR 0x96], [CHR ''H'', CHR 0xCC, CHR 0xB1]),
      ([CHR 0xE1, CHR 0xBA, CHR 0x97], [CHR ''T'', CHR 0xCC, CHR 0x88]),
      ([CHR 0xE1, CHR 0xBA, CHR 0x98], [CHR ''W'', CHR 0xCC, CHR 0x8A]),
      ([CHR 0xE1, CHR 0xBA, CHR 0x99], [CHR ''Y'', CHR 0xCC, CHR 0x8A]),
      ([CHR 0xE1, CHR 0xBA, CHR 0x9A], [CHR ''A'', CHR 0xCA, CHR 0xBE]),
      ([CHR 0xEF, CHR 0xAC, CHR 0x80], ''FF''),
      ([CHR 0xEF, CHR 0xAC, CHR 0x81], ''FI''),
      ([CHR 0xEF, CHR 0xAC, CHR 0x82], ''FL''),
      ([CHR 0xEF, CHR 0xAC, CHR 0x83], ''FFI''),
      ([CHR 0xEF, CHR 0xAC, CHR 0x84], ''FFL''),
      ([CHR 0xEF, CHR 0xAC, CHR 0x85], ''ST''),
      ([CHR 0xEF, CHR 0xAC, CHR 0x86], ''ST'')]"

text \<open>The entry of \<open>upperSpecial\<close> for the character \<open>s\<close> starts with, if there is one.\<close>

definition upperSpecialAt :: "string \<Rightarrow> (string \<times> string) option" where
  "upperSpecialAt s = find (\<lambda>kv. take (length (fst kv)) s = fst kv) upperSpecial"

function toUpperCase :: "string \<Rightarrow> string" where
  "toUpperCase [] = []"
| "toUpperCase (c # cs) =
     (case upperSpecialAt (c # cs) of
        Some kv \<Rightarrow> snd kv @ toUpperCase (drop (length (fst kv)) (c # cs))
      | None \<Rightarrow> toUpperChar c # toUpperCase cs)"
  by pat_completeness auto
termination
proof (relation "measure length")
  fix c :: char and cs :: string and kv :: "string \<times> string"
  assume "upperSpecialAt (c # cs) = Some kv"
  then have "kv \<in> set upperSpecial"
    by (auto simp: upperSpecialAt_def find_Some_iff)
  then have "fst kv \<noteq> []"
    by (auto simp: upperSpecial_def)
  then show "(drop (length (fst kv)) (c # cs), c # cs) \<in> measure length"
    by (cases "fst kv") simp_all
qed simp_all

declare toUpperCase.simps [simp del]

subsection \<open>\<^verbatim>\<open>parseInt(s, 10)\<close>\<close>

text \<open>
  The white space and line terminators that \<^verbatim>\<open>parseInt\<close> skips (ECMAScript
  \<^verbatim>\<open>StrWhiteSpaceChar\<close>), each as its UTF-8 bytes: U+0009--U+000D, U+0020, U+00A0, U+1680,
  U+2000--U+200A, U+2028, U+2029, U+202F, U+205F, U+3000, U+FEFF.
\<close>

definition StrWhiteSpaceChar :: "string list" where
  "StrWhiteSpaceChar =
     [[CHR 0x09], [CHR 0x0A], [CHR 0x0B], [CHR 0x0C], [CHR 0x0D], [CHR 0x20],
      [CHR 0xC2, CHR 0xA0],
      [CHR 0xE1, CHR 0x9A, CHR 0x80],
      [CHR 0xE2, CHR 0x80, CHR 0x80], [CHR 0xE2, CHR 0x80, CHR 0x81],
      [CHR 0xE2, CHR 0x80, CHR 0x82], [CHR 0xE2, CHR 0x80, CHR 0x83],
      [CHR 0xE2, CHR 0x80, CHR 0x84], [CHR 0xE2, CHR 0x80, CHR 0x85],
      [CHR 0xE2, CHR 0x80, CHR 0x86], [CHR 0xE2, CHR 0x80, CHR 0x87],
      [CHR 0xE2, CHR 0x80, CHR 0x88], [CHR 0xE2, CHR 0x80, CHR 0x89],
      [CHR 0xE2, CHR 0x80, CHR 0x8A],
      [CHR 0xE2, CHR 0x80, CHR 0xA8], [CHR 0xE2, CHR 0x80, CHR 0xA9],
      [CHR 0xE2, CHR 0x80, CHR 0xAF],
      [CHR 0xE2, CHR 0x81, CHR 0x9F],
      [CHR 0xE3, CHR 0x80, CHR 0x80],
      [CHR 0xEF, CHR 0xBB, CHR 0xBF]]"

text \<open>The number of bytes of the white-space character \<open>s\<close> starts with, 0 when there is none.\<close>

definition whiteSpaceLength :: "string \<Rightarrow> nat" where
  "whiteSpaceLength s =
     (case find (\<lambda>w. take (length w) s = w) StrWhiteSpaceChar of
        None \<Rightarrow> 0
      | Some w \<Rightarrow> min (length w) (length s))"

function skipWhiteSpace :: "string \<Rightarrow> string" where
  "skipWhiteSpace s =
     (if whiteSpaceLength s = 0 then s else skipWhiteSpace (drop (whiteSpaceLength s) s))"
  by pat_completeness auto
termination
  by (relation "measure length") (auto simp: whiteSpaceLength_def split: option.splits)

declare skipWhiteSpace.simps [simp del]

definition isDigit :: "char \<Rightarrow> bool" where
  "isDigit c = (48 \<le> (of_char c :: nat) \<and> (of_char c :: nat) \<le> 57)"

definition digitValue :: "char \<Rightarrow> int" where
  "digitValue c = int (of_char c) - 48"

definition digitsValue :: "string \<Rightarrow> int" where
  "digitsValue z = foldl (\<lambda>a c. 10 * a + digitValue c) 0 z"

text \<open>
  \<^verbatim>\<open>parseInt(s, 10)\<close>: skip white space, read an optional sign, then the longest run of
  decimal digits; \<open>None\<close> is \<^verbatim>\<open>NaN\<close> (no digit there). The result is the mathematical
  integer. JavaScript rounds it to a double (\<^verbatim>\<open>Infinity\<close> for some 309 digits and more);
  rounding is monotone and fixes the integers up to 54, so every comparison
  \<^verbatim>\<open>speed <= k\<close> made below has the same outcome on the integer.
\<close>

definition parseInt :: "string \<Rightarrow> int option" where
  "parseInt s =
     (let S = skipWhiteSpace s;
          sign = (if take 1 S = ''-'' then - 1 else 1 :: int);
          S' = (if take 1 S = ''-'' \<or> take 1 S = ''+'' then drop 1 S else S);
          Z = takeWhile isDigit S'
      in if Z = [] then None else Some (sign * digitsValue Z))"

section \<open>Classification helpers\<close>

subsection \<open>Glyphs\<close>

text \<open>
  The glyphs returned by the helpers, as the UTF-8 bytes of the literals in the source:
  the weather icons are U+2600, U+26C5, U+2601, U+1F327, U+26C8, U+2744, U+1F32B and U+1F321,
  each followed by the variation selector U+FE0F.
\<close>

definition icon_sun :: string where
  "icon_sun = [CHR 0xE2, CHR 0x98, CHR 0x80, CHR 0xEF, CHR 0xB8, CHR 0x8F]"

definition icon_partly_cloudy :: string where
  "icon_partly_cloudy = [CHR 0xE2, CHR 0x9B, CHR 0x85, CHR 0xEF, CHR 0xB8, CHR 0x8F]"

definition icon_cloud :: string where
  "icon_cloud = [CHR 0xE2, CHR 0x98, CHR 0x81, CHR 0xEF, CHR 0xB8, CHR 0x8F]"

definition icon_rain :: string where
  "icon_rain = [CHR 0xF0, CHR 0x9F, CHR 0x8C, CHR 0xA7, CHR 0xEF, CHR 0xB8, CHR 0x8F]"

definition icon_thunder :: string where
  "icon_thunder = [CHR 0xE2, CHR 0x9B, CHR 0x88, CHR 0xEF, CHR 0xB8, CHR 0x8F]"

definition icon_snow :: string where
  "icon_snow = [CHR 0xE2, CHR 0x9D, CHR 0x84, CHR 0xEF, CHR 0xB8, CHR 0x8F]"

definition icon_fog :: string where
  "icon_fog = [CHR 0xF0, CHR 0x9F, CHR 0x8C, CHR 0xAB, CHR 0xEF, CHR 0xB8, CHR 0x8F]"

definition icon_thermometer :: string where
  "icon_thermometer = [CHR 0xF0, CHR 0x9F, CHR 0x8C, CHR 0xA1, CHR 0xEF, CHR 0xB8, CHR 0x8F]"

text \<open>
  The arrows: U+2197 (north-east), U+2196 (north-west), U+2191 (north), U+2198 (south-east),
  U+2199 (south-west), U+2193 (south), U+2192 (east), U+2190 (west), and the default
  U+2194 U+FE0F (left-right arrow).
\<close>

definition arrow_NE :: string where "arrow_NE = [CHR 0xE2, CHR 0x86, CHR 0x97]"
definition arrow_NW :: string where "arrow_NW = [CHR 0xE2, CHR 0x86, CHR 0x96]"
definition arrow_N :: string where "arrow_N = [CHR 0xE2, CHR 0x86, CHR 0x91]"
definition arrow_SE :: string where "arrow_SE = [CHR 0xE2, CHR 0x86, CHR 0x98]"
definition arrow_SW :: string where "arrow_SW = [CHR 0xE2, CHR 0x86, CHR 0x99]"
definition arrow_S :: string where "arrow_S = [CHR 0xE2, CHR 0x86, CHR 0x93]"
definition arrow_E :: string where "arrow_E = [CHR 0xE2, CHR 0x86, CHR 0x92]"
definition arrow_W :: string where "arrow_W = [CHR 0xE2, CHR 0x86, CHR 0x90]"

definition arrow_default :: string where
  "arrow_default = [CHR 0xE2, CHR 0x86, CHR 0x94, CHR 0xEF, CHR 0xB8, CHR 0x8F]"

subsection \<open>The three helpers\<close>

definition getWeatherIcon :: "string \<Rightarrow> string" where
  "getWeatherIcon condition =
     (let lowerCaseCondition = toLowerCase condition in
      if str_includes lowerCaseCondition ''sun'' \<or> str_includes lowerCaseCondition ''clear''
        then icon_sun
      else if str_includes lowerCaseCondition ''cloud'' \<and> str_includes lowerCaseCondition ''partly''
        then icon_partly_cloudy
      else if str_includes lowerCaseCondition ''cloud''
        then icon_cloud
      else if str_includes lowerCaseCondition ''rain'' \<or> str_includes lowerCaseCondition ''drizzle''
        then icon_rain
      else if str_includes lowerCaseCondition ''thunder'' \<or> str_includes lowerCaseCondition ''storm''
        then icon_thunder
      else if str_includes lowerCaseCondition ''snow''
        then icon_snow
      else if str_includes lowerCaseCondition ''mist'' \<or> str_includes lowerCaseCondition ''fog''
        then icon_fog
      else icon_thermometer)"

definition getBeaufortDescription :: "string \<Rightarrow> string" where
  "getBeaufortDescription speedStr =
     (case parseInt speedStr of
        None \<Rightarrow> speedStr
      | Some speed \<Rightarrow>
          if speed \<le> 1 then ''Calm''
          else if speed \<le> 3 then ''Light air''
          else if speed \<le> 7 then ''Light breeze''
          else if speed \<le> 12 then ''Gentle breeze''
          else if speed \<le> 18 then ''Moderate breeze''
          else if speed \<le> 24 then ''Fresh breeze''
          else if speed \<le> 31 then ''Strong breeze''
          else if speed \<le> 38 then ''High wind''
          else if speed \<le> 46 then ''Gale''
          else if speed \<le> 54 then ''Strong gale''
          else ''Storm'')"

definition getWindDirectionIcon :: "string \<Rightarrow> string" where
  "getWindDirectionIcon direction =
     (let d = toUpperCase direction in
      if str_includes d ''N'' then
        (if str_includes d ''E'' then arrow_NE
         else if str_includes d ''W'' then arrow_NW
         else arrow_N)
      else if str_includes d ''S'' then
        (if str_includes d ''E'' then arrow_SE
         else if str_includes d ''W'' then arrow_SW
         else arrow_S)
      else if str_includes d ''E'' then arrow_E
      else if str_includes d ''W'' then arrow_W
      else arrow_default)"

subsection \<open>The helpers as the specification words them\<close>

text \<open>
  Icon selection by a priority list: the rules are tried in order on the lower-cased
  condition, the first rule that matches gives the glyph, and the thermometer is the default.
\<close>

definition icon_rules :: "((string \<Rightarrow> bool) \<times> string) list" where
  "icon_rules =
     [(\<lambda>l. str_includes l ''sun'' \<or> str_includes l ''clear'', icon_sun),
      (\<lambda>l. str_includes l ''partly'' \<and> str_includes l ''cloud'', icon_partly_cloudy),
      (\<lambda>l. str_includes l ''cloud'', icon_cloud),
      (\<lambda>l. str_includes l ''rain'' \<or> str_includes l ''drizzle'', icon_rain),
      (\<lambda>l. str_includes l ''thunder'' \<or> str_includes l ''storm'', icon_thunder),
      (\<lambda>l. str_includes l ''snow'', icon_snow),
      (\<lambda>l. str_includes l ''mist'' \<or> str_includes l ''fog'', icon_fog)]"

definition icon_by_priority :: "string \<Rightarrow> string" where
  "icon_by_priority condition =
     (case find (\<lambda>r. fst r (toLowerCase condition)) icon_rules of
        Some r \<Rightarrow> snd r
      | None \<Rightarrow> icon_thermometer)"

text \<open>
  The Beaufort bands: the label of the first band whose inclusive upper threshold is not
  below the speed, \<open>Storm\<close> above the last threshold.
\<close>

definition beaufort_bands :: "(int \<times> string) list" where
  "beaufort_bands =
     [(1, ''Calm''), (3, ''Light air''), (7, ''Light breeze''), (12, ''Gentle breeze''),
      (18, ''Moderate breeze''), (24, ''Fresh breeze''), (31, ''Strong breeze''),
      (38, ''High wind''), (46, ''Gale''), (54, ''Strong gale'')]"

definition beaufort_band :: "int \<Rightarrow> string" where
  "beaufort_band speed =
     (case find (\<lambda>b. speed \<le> fst b) beaufort_bands of
        Some b \<Rightarrow> snd b
      | None \<Rightarrow> ''Storm'')"

text \<open>
  The arrow by letter presence: \<open>n\<close>, \<open>s\<close>, \<open>e\<close>, \<open>w\<close> say whether the upper-cased
  direction holds the letter; north and south are looked at before east and west alone.
\<close>

definition arrow_by_letters :: "bool \<Rightarrow> bool \<Rightarrow> bool \<Rightarrow> bool \<Rightarrow> string" where
  "arrow_by_letters n s e w =
     (if n \<and> e then arrow_NE else if n \<and> w then arrow_NW else if n then arrow_N
      else if s \<and> e then arrow_SE else if s \<and> w then arrow_SW else if s then arrow_S
      else if e then arrow_E else if w then arrow_W else arrow_default)"

section \<open>The request/response controller\<close>

subsection \<open>Data\<close>

text \<open>
  The value \<^verbatim>\<open>JSON.parse\<close> returns is used as a \<^verbatim>\<open>WeatherData\<close> with no check that a
  field is there (an error reply holds the \<^verbatim>\<open>error\<close> field only), so every field is
  optional: \<open>None\<close> is \<^verbatim>\<open>undefined\<close>.
\<close>

record HourlyForecast =
  hf_time :: string
  hf_temperature :: string
  hf_temperatureUnit :: string
  hf_conditions :: string
  hf_precipitationProbability :: string
  hf_precipitationType :: string

record DailyForecast =
  df_day :: string
  df_highTemperature :: string
  df_lowTemperature :: string
  df_temperatureUnit :: string
  df_conditions :: string
  df_precipitationProbability :: string
  df_precipitationType :: string

record WeatherData =
  wd_city :: "string option"
  wd_temperature :: "string option"
  wd_temperatureUnit :: "string option"
  wd_conditions :: "string option"
  wd_windSpeed :: "string option"
  wd_windDirection :: "string option"
  wd_precipitationProbability :: "string option"
  wd_precipitationType :: "string option"
  wd_hourlyForecast :: "HourlyForecast list option"
  wd_dailyForecast :: "DailyForecast list option"
  wd_error :: "string option"

text \<open>The five state variables of \<^verbatim>\<open>App\<close>.\<close>

record app_state =
  city :: string
  selectedDate :: string
  weather :: "WeatherData option"
  loading :: bool
  error :: "string option"

text \<open>
  What a \<^verbatim>\<open>catch\<close> receives: an \<^verbatim>\<open>Error\<close> instance with its message, or any other
  value.
\<close>

datatype thrown = ErrorWith string | OtherThrown

text \<open>
  What \<^verbatim>\<open>JSON.parse\<close> returns: \<^verbatim>\<open>null\<close>, an object, or another value (a boolean, a
  number, a string or an array), of which reading \<^verbatim>\<open>error\<close> or \<^verbatim>\<open>city\<close> gives
  \<^verbatim>\<open>undefined\<close>.
\<close>

datatype json_value = JNull | JOther | JObject WeatherData

text \<open>
  How the awaited call ends: it throws or rejects, or it returns a response, of which the
  handler reads \<^verbatim>\<open>JSON.parse(response.text)\<close> only; \<open>ResponseText None\<close> is a
  response on whose text \<^verbatim>\<open>JSON.parse\<close> throws.
\<close>

datatype api_outcome = CallThrows thrown | ResponseText "json_value option"

text \<open>
  Reading a property of \<^verbatim>\<open>null\<close> throws a \<^verbatim>\<open>TypeError\<close>, an \<^verbatim>\<open>Error\<close> instance.
  Its message is the engine's; this is the message of V8.
\<close>

definition null_read_message :: string where
  "null_read_message =
     ''Cannot read properties of null (reading '' @ [CHR 0x27] @ ''error'' @ [CHR 0x27] @ '')''"



text \<open>
  The request: the model name and the schema are constants, and the prompt is built from
  the city and the date only.
\<close>

record request =
  for_city :: string
  for_date :: string

text \<open>What the handler does, in the order of the source: state setters and the outbound call.\<close>

datatype effect =
    SetError "string option"
  | SetLoading bool
  | SetWeather "WeatherData option"
  | GenerateContent request

fun apply_effect :: "app_state \<Rightarrow> effect \<Rightarrow> app_state" where
  "apply_effect st (SetError e) = st\<lparr>error := e\<rparr>"
| "apply_effect st (SetLoading b) = st\<lparr>loading := b\<rparr>"
| "apply_effect st (SetWeather w) = st\<lparr>weather := w\<rparr>"
| "apply_effect st (GenerateContent r) = st"

definition run :: "app_state \<Rightarrow> effect list \<Rightarrow> app_state" where
  "run st es = foldl apply_effect st es"

definition calls :: "effect list \<Rightarrow> request list" where
  "calls es = concat (map (\<lambda>e. case e of GenerateContent r \<Rightarrow> [r] | _ \<Rightarrow> []) es)"

text \<open>JavaScript truthiness of an optional string: \<^verbatim>\<open>undefined\<close> and \<^verbatim>\<open>''\<close> are falsy.\<close>

definition truthy :: "string option \<Rightarrow> bool" where
  "truthy v = (case v of None \<Rightarrow> False | Some s \<Rightarrow> s \<noteq> [])"

subsection \<open>\<^verbatim>\<open>getWeather\<close>\<close>

text \<open>The two guards at the head of the handler: the message of the first one that fails.\<close>

definition validation :: "app_state \<Rightarrow> string option" where
  "validation st =
     (if city st = [] then Some ''Please enter a city name.''
      else if selectedDate st = [] then Some ''Please select a date.''
      else None)"

text \<open>The handler up to its \<^verbatim>\<open>await\<close>.\<close>

definition getWeather_submit :: "app_state \<Rightarrow> effect list" where
  "getWeather_submit st =
     (case validation st of
        Some msg \<Rightarrow> [SetError (Some msg)]
      | None \<Rightarrow>
          [SetLoading True, SetWeather None, SetError None,
           GenerateContent \<lparr>for_city = city st, for_date = selectedDate st\<rparr>])"

text \<open>
  The body of the outer \<^verbatim>\<open>try\<close> from the \<^verbatim>\<open>await\<close> on: \<open>Inl\<close> is what it throws.
  \<open>c\<close> is the city the handler's closure holds. On \<^verbatim>\<open>null\<close> the read of
  \<^verbatim>\<open>weatherData.error\<close> throws; on a value that is no object both reads give
  \<^verbatim>\<open>undefined\<close>, so the first guard fails and the second holds.
\<close>

definition try_body :: "string \<Rightarrow> api_outcome \<Rightarrow> thrown + effect list" where
  "try_body c outcome =
     (case outcome of
        CallThrows t \<Rightarrow> Inl t
      | ResponseText None \<Rightarrow>
          Inl (ErrorWith ''The weather service returned an invalid response. Please try again.'')
      | ResponseText (Some JNull) \<Rightarrow> Inl (ErrorWith null_read_message)
      | ResponseText (Some JOther) \<Rightarrow>
          Inr [SetError (Some (''Could not find weather data for '' @ [CHR 0x22] @ c @
                               [CHR 0x22] @ ''. Please check the spelling.''))]
      | ResponseText (Some (JObject weatherData)) \<Rightarrow>
          Inr [if truthy (wd_error weatherData) then SetError (wd_error weatherData)
               else if \<not> truthy (wd_city weatherData) then
                 SetError (Some (''Could not find weather data for '' @ [CHR 0x22] @ c @
                                 [CHR 0x22] @ ''. Please check the spelling.''))
               else SetWeather (Some weatherData)])"

text \<open>The \<^verbatim>\<open>try\<close> with its \<^verbatim>\<open>catch\<close> and \<^verbatim>\<open>finally\<close>.\<close>

definition getWeather_settle :: "string \<Rightarrow> api_outcome \<Rightarrow> effect list" where
  "getWeather_settle c outcome =
     (case try_body c outcome of
        Inr es \<Rightarrow> es
      | Inl (ErrorWith message) \<Rightarrow> [SetError (Some message)]
      | Inl OtherThrown \<Rightarrow>
          [SetError (Some ''An unexpected API error occurred. Please try again later.'')])
     @ [SetLoading False]"

text \<open>The whole handler, run on the state of the submission and the outcome of the call.\<close>

definition getWeather :: "app_state \<Rightarrow> api_outcome \<Rightarrow> effect list" where
  "getWeather st outcome =
     (case validation st of
        Some msg \<Rightarrow> getWeather_submit st
      | None \<Rightarrow> getWeather_submit st @ getWeather_settle (city st) outcome)"

subsection \<open>What \<^verbatim>\<open>App\<close> renders\<close>

text \<open>
  \<^verbatim>\<open>{loading && <WeatherSkeleton />}\<close>, \<^verbatim>\<open>{error && <p className="error">...}\<close> and
  \<^verbatim>\<open>{!loading && weather && (...)}\<close>.
\<close>

definition shows_skeleton :: "app_state \<Rightarrow> bool" where
  "shows_skeleton st = loading st"

definition shown_error :: "app_state \<Rightarrow> string option" where
  "shown_error st = (if truthy (error st) then error st else None)"

definition shows_results :: "app_state \<Rightarrow> bool" where
  "shows_results st = (\<not> loading st \<and> weather st \<noteq> None)"

subsection \<open>Sample data\<close>

definition paris :: WeatherData where
  "paris =
     \<lparr>wd_city = Some ''Paris'', wd_temperature = Some ''18'', wd_temperatureUnit = Some ''C'',
      wd_conditions = Some ''Partly cloudy'', wd_windSpeed = Some ''10 mph'',
      wd_windDirection = Some ''NW'', wd_precipitationProbability = Some ''30%'',
      wd_precipitationType = Some ''Rain'', wd_hourlyForecast = Some [],
      wd_dailyForecast = Some [], wd_error = None\<rparr>"



definition initial :: app_state where
  "initial = \<lparr>city = [], selectedDate = ''2025-06-01'', weather = None, loading = False,
              error = None\<rparr>"

text \<open>The form filled in for Paris, with the result and the error of an earlier request.\<close>

definition asking_paris :: app_state where
  "asking_paris = \<lparr>city = ''Paris'', selectedDate = ''2025-06-01'', weather = Some paris,
                   loading = False, error = Some ''City not found.''\<rparr>"

text \<open>Paris shown, and the city field cleared since.\<close>

definition paris_shown :: app_state where
  "paris_shown = \<lparr>city = [], selectedDate = ''2025-06-01'', weather = Some paris,
                  loading = False, error = None\<rparr>"

section \<open>Lemmas on strings\<close>

lemma str_includes_prefix: "take (length sub) s = sub \<Longrightarrow> str_includes s sub"
  by (cases s) auto

lemma str_includes_append: "str_includes (pre @ sub @ post) sub"
  by (induction pre) (simp_all add: str_includes_prefix)

lemma str_includes_char: "str_includes s [c] \<longleftrightarrow> c \<in> set s"
  by (induction s) auto

lemma toLowerCase_append: "toLowerCase (a @ b) = toLowerCase a @ toLowerCase b"
  by (simp add: toLowerCase_def)

lemma upperSpecial_keys:
  "\<forall>kv\<in>set upperSpecial. \<forall>b\<in>set (fst kv). 128 \<le> (of_char b :: nat)"
  by (simp add: upperSpecial_def)

lemma upperSpecialAt_Some:
  assumes "upperSpecialAt s = Some kv"
  shows "s = fst kv @ drop (length (fst kv)) s"
    and "\<forall>b\<in>set (fst kv). 128 \<le> (of_char b :: nat)"
proof -
  from assms have m: "kv \<in> set upperSpecial" and t: "take (length (fst kv)) s = fst kv"
    by (auto simp: upperSpecialAt_def find_Some_iff)
  from t show "s = fst kv @ drop (length (fst kv)) s"
    by (metis append_take_drop_id)
  from m upperSpecial_keys show "\<forall>b\<in>set (fst kv). 128 \<le> (of_char b :: nat)" by blast
qed

text \<open>An ASCII byte of the string is upper-cased in place: its upper-casing is in the result.\<close>

lemma toUpperCase_ascii:
  "x \<in> set s \<Longrightarrow> (of_char x :: nat) < 128 \<Longrightarrow> toUpperChar x \<in> set (toUpperCase s)"
proof (induction s rule: toUpperCase.induct)
  case 1
  then show ?case by simp
next
  case (2 c cs)
  show ?case
  proof (cases "upperSpecialAt (c # cs)")
    case None
    with 2 show ?thesis by (auto simp: toUpperCase.simps)
  next
    case (Some kv)
    from upperSpecialAt_Some [OF Some]
    have s: "c # cs = fst kv @ drop (length (fst kv)) (c # cs)"
      and k: "\<forall>b\<in>set (fst kv). 128 \<le> (of_char b :: nat)" by blast+
    from k "2.prems"(2) have "x \<notin> set (fst kv)" by auto
    moreover from s "2.prems"(1)
    have "x \<in> set (fst kv) \<union> set (drop (length (fst kv)) (c # cs))"
      by (metis set_append)
    ultimately have "x \<in> set (drop (length (fst kv)) (c # cs))" by blast
    with "2.IH"(2) [OF Some] "2.prems"(2)
    have "toUpperChar x \<in> set (toUpperCase (drop (length (fst kv)) (c # cs)))" by blast
    with Some show ?thesis by (simp add: toUpperCase.simps)
  qed
qed

lemma toUpperCase_letter:
  assumes "lower \<in> set s \<or> upper \<in> set s"
    and "toUpperChar lower = upper" and "toUpperChar upper = upper"
    and "(of_char lower :: nat) < 128" and "(of_char upper :: nat) < 128"
  shows "upper \<in> set (toUpperCase s)"
  using assms toUpperCase_ascii [of lower s] toUpperCase_ascii [of upper s] by auto

lemma isDigit_not_sign: "isDigit c \<Longrightarrow> c \<noteq> CHR ''-'' \<and> c \<noteq> CHR ''+''"
  by (auto simp: isDigit_def)

lemma StrWhiteSpaceChar_heads: "\<forall>w\<in>set StrWhiteSpaceChar. w \<noteq> [] \<and> \<not> isDigit (hd w)"
  by code_simp

lemma whiteSpaceLength_digit:
  assumes "isDigit c"
  shows "whiteSpaceLength (c # cs) = 0"
proof -
  have "\<not> (take (length w) (c # cs) = w)" if "w \<in> set StrWhiteSpaceChar" for w
  proof
    assume eq: "take (length w) (c # cs) = w"
    from that StrWhiteSpaceChar_heads have w: "w \<noteq> []" "\<not> isDigit (hd w)" by auto
    from w(1) eq have "hd w = c" by (cases w) auto
    with w(2) assms show False by simp
  qed
  then have "find (\<lambda>w. take (length w) (c # cs) = w) StrWhiteSpaceChar = None"
    by (simp add: find_None_iff)
  then show ?thesis by (simp add: whiteSpaceLength_def)
qed

lemma skipWhiteSpace_digit: "isDigit c \<Longrightarrow> skipWhiteSpace (c # cs) = c # cs"
  by (simp add: skipWhiteSpace.simps whiteSpaceLength_digit)

text \<open>A string that starts with decimal digits parses to the number its leading digits spell.\<close>

lemma parseInt_leading_digits:
  assumes "ds \<noteq> []" and "\<forall>c\<in>set ds. isDigit c"
  shows "parseInt (ds @ rest) = Some (digitsValue (ds @ takeWhile isDigit rest))"
proof -
  define S where "S = ds @ rest"
  from assms obtain c cs where ds: "ds = c # cs" and c: "isDigit c"
    by (cases ds) auto
  have skip: "skipWhiteSpace S = S"
    using c by (simp add: S_def ds skipWhiteSpace_digit)
  have tw: "takeWhile isDigit S = ds @ takeWhile isDigit rest"
    using assms(2) by (simp add: S_def)
  have nosign: "take (Suc 0) S \<noteq> ''-''" "take (Suc 0) S \<noteq> ''+''"
    using isDigit_not_sign [OF c] by (simp_all add: S_def ds)
  have "parseInt S = Some (digitsValue (ds @ takeWhile isDigit rest))"
    using assms(1) by (simp add: parseInt_def skip tw nosign Let_def)
  then show ?thesis by (simp add: S_def)
qed

section \<open>Lemmas on the classification helpers\<close>

lemma getBeaufortDescription_band:
  "getBeaufortDescription s = (case parseInt s of None \<Rightarrow> s | Some n \<Rightarrow> beaufort_band n)"
  by (simp add: getBeaufortDescription_def beaufort_band_def beaufort_bands_def split: option.splits)

lemma beaufort_band_storm: "54 < n \<Longrightarrow> beaufort_band n = ''Storm''"
  by (simp add: beaufort_band_def beaufort_bands_def)

lemma getWeatherIcon_icon_by_priority: "getWeatherIcon c = icon_by_priority c"
  by (simp add: getWeatherIcon_def icon_by_priority_def icon_rules_def Let_def)

lemma getWeatherIcon_sun:
  assumes "toLowerCase w = ''sun'' \<or> toLowerCase w = ''clear''"
  shows "getWeatherIcon (pre @ w @ post) = icon_sun"
proof -
  have "toLowerCase (pre @ w @ post) = toLowerCase pre @ toLowerCase w @ toLowerCase post"
    by (simp add: toLowerCase_append)
  with assms have "str_includes (toLowerCase (pre @ w @ post)) ''sun''
      \<or> str_includes (toLowerCase (pre @ w @ post)) ''clear''"
    using str_includes_append [of "toLowerCase pre" "''sun''" "toLowerCase post"]
      str_includes_append [of "toLowerCase pre" "''clear''" "toLowerCase post"]
    by auto
  then show ?thesis by (auto simp add: getWeatherIcon_def Let_def)
qed

lemma getWeatherIcon_partly:
  "str_includes (toLowerCase c) ''partly'' \<Longrightarrow> str_includes (toLowerCase c) ''cloud'' \<Longrightarrow>
   \<not> str_includes (toLowerCase c) ''sun'' \<Longrightarrow> \<not> str_includes (toLowerCase c) ''clear'' \<Longrightarrow>
   getWeatherIcon c = icon_partly_cloudy"
  by (simp add: getWeatherIcon_def Let_def)

lemma getWeatherIcon_default:
  "\<forall>r\<in>set icon_rules. \<not> fst r (toLowerCase c) \<Longrightarrow> getWeatherIcon c = icon_thermometer"
  by (simp add: getWeatherIcon_def Let_def icon_rules_def)

text \<open>Upper-casing turns each of the eight letters into its capital.\<close>

lemma toUpperCase_presence:
  "(CHR ''n'' \<in> set dir \<or> CHR ''N'' \<in> set dir \<longrightarrow> CHR ''N'' \<in> set (toUpperCase dir))
   \<and> (CHR ''s'' \<in> set dir \<or> CHR ''S'' \<in> set dir \<longrightarrow> CHR ''S'' \<in> set (toUpperCase dir))
   \<and> (CHR ''e'' \<in> set dir \<or> CHR ''E'' \<in> set dir \<longrightarrow> CHR ''E'' \<in> set (toUpperCase dir))
   \<and> (CHR ''w'' \<in> set dir \<or> CHR ''W'' \<in> set dir \<longrightarrow> CHR ''W'' \<in> set (toUpperCase dir))"
proof -
  have n: "toUpperChar CHR ''n'' = CHR ''N''" "toUpperChar CHR ''N'' = CHR ''N''"
    "(of_char CHR ''n'' :: nat) < 128" "(of_char CHR ''N'' :: nat) < 128"
    by code_simp+
  have s: "toUpperChar CHR ''s'' = CHR ''S''" "toUpperChar CHR ''S'' = CHR ''S''"
    "(of_char CHR ''s'' :: nat) < 128" "(of_char CHR ''S'' :: nat) < 128"
    by code_simp+
  have e: "toUpperChar CHR ''e'' = CHR ''E''" "toUpperChar CHR ''E'' = CHR ''E''"
    "(of_char CHR ''e'' :: nat) < 128" "(of_char CHR ''E'' :: nat) < 128"
    by code_simp+
  have w: "toUpperChar CHR ''w'' = CHR ''W''" "toUpperChar CHR ''W'' = CHR ''W''"
    "(of_char CHR ''w'' :: nat) < 128" "(of_char CHR ''W'' :: nat) < 128"
    by code_simp+
  show ?thesis
    using toUpperCase_letter [OF _ n, of dir] toUpperCase_letter [OF _ s, of dir]
      toUpperCase_letter [OF _ e, of dir] toUpperCase_letter [OF _ w, of dir]
    by blast
qed

lemma getWindDirectionIcon_arrow_by_letters:
  "getWindDirectionIcon dir =
     arrow_by_letters (CHR ''N'' \<in> set (toUpperCase dir)) (CHR ''S'' \<in> set (toUpperCase dir))
       (CHR ''E'' \<in> set (toUpperCase dir)) (CHR ''W'' \<in> set (toUpperCase dir))"
  by (simp add: getWindDirectionIcon_def arrow_by_letters_def Let_def str_includes_char)

lemma arrows_distinct:
  "distinct [arrow_NE, arrow_NW, arrow_N, arrow_SE, arrow_SW, arrow_S, arrow_E, arrow_W,
     arrow_default]"
  by code_simp

section \<open>Beaufort classification\<close>

text \<open>
  Claim C2. \<^verbatim>\<open>getBeaufortDescription\<close> parses a leading integer from the wind-speed
  string. A string that does not parse is returned unchanged. A parsed speed gets the label
  of the first of the bands with the inclusive upper thresholds 1, 3, 7, 12, 18, 24, 31,
  38, 46, 54 (\<open>Calm\<close> to \<open>Strong gale\<close>) that it does not exceed, and \<open>Storm\<close>, the
  eleventh label, above 54. So \<open>0\<close> is \<open>Calm\<close>, \<open>5\<close> is \<open>Light breeze\<close>, \<open>60\<close> is
  \<open>Storm\<close> and \<open>N/A\<close> comes back as it is.
\<close>

theorem getBeaufortDescription_classifies:
  "getBeaufortDescription s = (case parseInt s of None \<Rightarrow> s | Some n \<Rightarrow> beaufort_band n)
   \<and> (ds \<noteq> [] \<and> (\<forall>c\<in>set ds. isDigit c) \<longrightarrow>
        parseInt (ds @ rest) = Some (digitsValue (ds @ takeWhile isDigit rest)))
   \<and> map fst beaufort_bands = [1, 3, 7, 12, 18, 24, 31, 38, 46, 54]
   \<and> length beaufort_bands + 1 = 11
   \<and> (54 < n \<longrightarrow> beaufort_band n = ''Storm'')
   \<and> getBeaufortDescription ''0'' = ''Calm''
   \<and> getBeaufortDescription ''5'' = ''Light breeze''
   \<and> getBeaufortDescription ''60'' = ''Storm''
   \<and> getBeaufortDescription ''N/A'' = ''N/A''"
proof -
  have ex: "getBeaufortDescription ''0'' = ''Calm''"
    "getBeaufortDescription ''5'' = ''Light breeze''"
    "getBeaufortDescription ''60'' = ''Storm''"
    "getBeaufortDescription ''N/A'' = ''N/A''"
    by code_simp+
  have tab: "map fst beaufort_bands = [1, 3, 7, 12, 18, 24, 31, 38, 46, 54]"
    "length beaufort_bands + 1 = 11"
    by (simp_all add: beaufort_bands_def)
  show ?thesis
    using getBeaufortDescription_band [of s] parseInt_leading_digits [of ds rest]
      beaufort_band_storm [of n] ex tab
    by blast
qed

theorem getBeaufortDescription_classifies_witness:
  "parseInt ''12 mph'' = Some 12 \<and> getBeaufortDescription ''12 mph'' = ''Gentle breeze''
   \<and> (54::int) < 60 \<and> beaufort_band 60 = ''Storm''"
proof -
  have d: "''12'' \<noteq> [] \<and> (\<forall>c\<in>set ''12''. isDigit c)" by code_simp
  have v: "digitsValue (''12'' @ takeWhile isDigit '' mph'') = 12" by code_simp
  have b: "beaufort_band 12 = ''Gentle breeze''" by code_simp
  have l: "(54::int) < 60" by simp
  note t = getBeaufortDescription_classifies [of "''12 mph''" "''12''" "'' mph''" 60]
  from t d have p: "parseInt (''12'' @ '' mph'') = Some (digitsValue (''12'' @ takeWhile isDigit '' mph''))"
    by blast
  then have p': "parseInt ''12 mph'' = Some 12" using v by simp
  from t have "getBeaufortDescription ''12 mph'' = (case parseInt ''12 mph'' of None \<Rightarrow> ''12 mph'' | Some n \<Rightarrow> beaufort_band n)"
    by blast
  then have g: "getBeaufortDescription ''12 mph'' = ''Gentle breeze''" using p' b by simp
  from t l have "beaufort_band 60 = ''Storm''" by blast
  with p' g l show ?thesis by blast
qed

section \<open>Icon selection\<close>

text \<open>
  Claim C3. \<^verbatim>\<open>getWeatherIcon\<close> lower-cases the condition and tries the rules in the
  order sun/clear, partly and cloud, cloud, rain/drizzle, thunder/storm, snow, mist/fog; the
  first rule that matches gives the glyph, and a condition that matches none gets the
  thermometer. So a condition that holds \<open>sun\<close> or \<open>clear\<close> in any letter case gets the
  sun, and one that holds \<open>partly\<close> and \<open>cloud\<close>, and neither \<open>sun\<close> nor \<open>clear\<close>, gets
  the partly-cloudy glyph, which is not the plain cloud.
\<close>

theorem getWeatherIcon_priority_order:
  "getWeatherIcon c = icon_by_priority c
   \<and> (toLowerCase w = ''sun'' \<or> toLowerCase w = ''clear'' \<longrightarrow>
        getWeatherIcon (pre @ w @ post) = icon_sun)
   \<and> (str_includes (toLowerCase c) ''partly'' \<and> str_includes (toLowerCase c) ''cloud'' \<and>
        \<not> str_includes (toLowerCase c) ''sun'' \<and> \<not> str_includes (toLowerCase c) ''clear'' \<longrightarrow>
        getWeatherIcon c = icon_partly_cloudy)
   \<and> icon_partly_cloudy \<noteq> icon_cloud
   \<and> ((\<forall>r\<in>set icon_rules. \<not> fst r (toLowerCase c)) \<longrightarrow> getWeatherIcon c = icon_thermometer)"
proof -
  have ne: "icon_partly_cloudy \<noteq> icon_cloud"
    by (simp add: icon_partly_cloudy_def icon_cloud_def)
  show ?thesis
    using getWeatherIcon_icon_by_priority [of c] getWeatherIcon_sun [of w pre post]
      getWeatherIcon_partly [of c] getWeatherIcon_default [of c] ne
    by blast
qed

theorem getWeatherIcon_priority_order_witness:
  "toLowerCase ''SUN'' = ''sun''
   \<and> getWeatherIcon (''Mostly '' @ ''SUN'' @ ''ny, some clouds'') = icon_sun
   \<and> str_includes (toLowerCase ''Partly Cloudy'') ''partly''
   \<and> str_includes (toLowerCase ''Partly Cloudy'') ''cloud''
   \<and> \<not> str_includes (toLowerCase ''Partly Cloudy'') ''sun''
   \<and> \<not> str_includes (toLowerCase ''Partly Cloudy'') ''clear''
   \<and> getWeatherIcon ''Partly Cloudy'' = icon_partly_cloudy
   \<and> filter (\<lambda>r. fst r (toLowerCase ''Hazy'')) icon_rules = []
   \<and> getWeatherIcon ''Hazy'' = icon_thermometer"
proof -
  have s: "toLowerCase ''SUN'' = ''sun''" by code_simp
  have p: "str_includes (toLowerCase ''Partly Cloudy'') ''partly''
     \<and> str_includes (toLowerCase ''Partly Cloudy'') ''cloud''
     \<and> \<not> str_includes (toLowerCase ''Partly Cloudy'') ''sun''
     \<and> \<not> str_includes (toLowerCase ''Partly Cloudy'') ''clear''" by code_simp
  have h: "\<forall>r\<in>set icon_rules. \<not> fst r (toLowerCase ''Hazy'')" by code_simp
  note t = getWeatherIcon_priority_order
    [of "''Partly Cloudy''" "''SUN''" "''Mostly ''" "''ny, some clouds''"]
  note u = getWeatherIcon_priority_order [of "''Hazy''" "''SUN''" "''Mostly ''" "''ny, some clouds''"]
  from t s p have 1: "getWeatherIcon (''Mostly '' @ ''SUN'' @ ''ny, some clouds'') = icon_sun"
    "getWeatherIcon ''Partly Cloudy'' = icon_partly_cloudy" by blast+
  from u h have 2: "getWeatherIcon ''Hazy'' = icon_thermometer" by blast
  have f: "filter (\<lambda>r. fst r (toLowerCase ''Hazy'')) icon_rules = []"
    using h by (simp add: filter_empty_conv)
  from s p f 1 2 show ?thesis by blast
qed

section \<open>Direction arrows\<close>

text \<open>
  Claim C4. \<^verbatim>\<open>getWindDirectionIcon\<close> upper-cases the direction and picks one of eight
  arrows by the presence of the letter \<open>N\<close> or \<open>S\<close> together with that of \<open>E\<close> or
  \<open>W\<close>, north and south before east and west alone; with none of the four letters it
  returns the default left-right arrow. The upper-casing is there: a small or a capital
  \<open>n\<close>, \<open>s\<close>, \<open>e\<close> or \<open>w\<close> in the direction puts the capital into the upper-cased
  string, so \<open>ne\<close> and \<open>sw\<close> get the arrows of \<open>NE\<close> and \<open>SW\<close>, and U+00DF, which
  upper-cases to \<open>SS\<close>, gets the south arrow. The nine glyphs differ from each other.
  \<open>NE\<close> gives the north-east arrow, \<open>SW\<close> the south-west arrow and \<open>Q\<close> the default.
\<close>

theorem getWindDirectionIcon_by_letters:
  "getWindDirectionIcon dir =
     arrow_by_letters (CHR ''N'' \<in> set (toUpperCase dir)) (CHR ''S'' \<in> set (toUpperCase dir))
       (CHR ''E'' \<in> set (toUpperCase dir)) (CHR ''W'' \<in> set (toUpperCase dir))
   \<and> (CHR ''n'' \<in> set dir \<or> CHR ''N'' \<in> set dir \<longrightarrow> CHR ''N'' \<in> set (toUpperCase dir))
   \<and> (CHR ''s'' \<in> set dir \<or> CHR ''S'' \<in> set dir \<longrightarrow> CHR ''S'' \<in> set (toUpperCase dir))
   \<and> (CHR ''e'' \<in> set dir \<or> CHR ''E'' \<in> set dir \<longrightarrow> CHR ''E'' \<in> set (toUpperCase dir))
   \<and> (CHR ''w'' \<in> set dir \<or> CHR ''W'' \<in> set dir \<longrightarrow> CHR ''W'' \<in> set (toUpperCase dir))
   \<and> distinct [arrow_NE, arrow_NW, arrow_N, arrow_SE, arrow_SW, arrow_S, arrow_E, arrow_W,
        arrow_default]
   \<and> (CHR ''N'' \<notin> set (toUpperCase dir) \<and> CHR ''S'' \<notin> set (toUpperCase dir) \<and>
        CHR ''E'' \<notin> set (toUpperCase dir) \<and> CHR ''W'' \<notin> set (toUpperCase dir) \<longrightarrow>
        getWindDirectionIcon dir = arrow_default)
   \<and> getWindDirectionIcon ''NE'' = arrow_NE
   \<and> getWindDirectionIcon ''SW'' = arrow_SW
   \<and> getWindDirectionIcon ''Q'' = arrow_default
   \<and> toUpperCase ''ne'' = ''NE''
   \<and> getWindDirectionIcon ''ne'' = arrow_NE
   \<and> getWindDirectionIcon ''sw'' = arrow_SW
   \<and> toUpperCase [CHR 0xC3, CHR 0x9F] = ''SS''
   \<and> getWindDirectionIcon [CHR 0xC3, CHR 0x9F] = arrow_S"
proof -
  have ex: "getWindDirectionIcon ''NE'' = arrow_NE" "getWindDirectionIcon ''SW'' = arrow_SW"
    "getWindDirectionIcon ''Q'' = arrow_default"
    by code_simp+
  have lo: "toUpperCase ''ne'' = ''NE''" "getWindDirectionIcon ''ne'' = arrow_NE"
    "getWindDirectionIcon ''sw'' = arrow_SW"
    by code_simp+
  have sp: "toUpperCase [CHR 0xC3, CHR 0x9F] = ''SS''"
    "getWindDirectionIcon [CHR 0xC3, CHR 0x9F] = arrow_S"
    by code_simp+
  have d: "CHR ''N'' \<notin> set (toUpperCase dir) \<and> CHR ''S'' \<notin> set (toUpperCase dir) \<and>
        CHR ''E'' \<notin> set (toUpperCase dir) \<and> CHR ''W'' \<notin> set (toUpperCase dir) \<longrightarrow>
        getWindDirectionIcon dir = arrow_default"
    by (simp add: getWindDirectionIcon_arrow_by_letters arrow_by_letters_def)
  show ?thesis
    using getWindDirectionIcon_arrow_by_letters [of dir] toUpperCase_presence [of dir]
      arrows_distinct d ex lo sp
    by blast
qed

theorem getWindDirectionIcon_by_letters_witness:
  "CHR ''n'' \<in> set ''nw'' \<and> CHR ''w'' \<in> set ''nw''
   \<and> CHR ''N'' \<in> set (toUpperCase ''nw'') \<and> CHR ''W'' \<in> set (toUpperCase ''nw'')
   \<and> getWindDirectionIcon ''nw'' = arrow_NW
   \<and> CHR ''N'' \<notin> set (toUpperCase ''calm'') \<and> CHR ''S'' \<notin> set (toUpperCase ''calm'')
   \<and> CHR ''E'' \<notin> set (toUpperCase ''calm'') \<and> CHR ''W'' \<notin> set (toUpperCase ''calm'')
   \<and> getWindDirectionIcon ''calm'' = arrow_default"
proof -
  have i: "CHR ''n'' \<in> set ''nw''" "CHR ''w'' \<in> set ''nw''" by simp_all
  have o: "CHR ''E'' \<notin> set (toUpperCase ''nw'')" by code_simp
  note t = getWindDirectionIcon_by_letters [of "''nw''"]
  from t i have u: "CHR ''N'' \<in> set (toUpperCase ''nw'')" "CHR ''W'' \<in> set (toUpperCase ''nw'')"
    by blast+
  from t have "getWindDirectionIcon ''nw'' =
     arrow_by_letters (CHR ''N'' \<in> set (toUpperCase ''nw'')) (CHR ''S'' \<in> set (toUpperCase ''nw''))
       (CHR ''E'' \<in> set (toUpperCase ''nw'')) (CHR ''W'' \<in> set (toUpperCase ''nw''))"
    by blast
  with u o have nw: "getWindDirectionIcon ''nw'' = arrow_NW"
    by (simp add: arrow_by_letters_def)
  have h: "CHR ''N'' \<notin> set (toUpperCase ''calm'') \<and> CHR ''S'' \<notin> set (toUpperCase ''calm'')
   \<and> CHR ''E'' \<notin> set (toUpperCase ''calm'') \<and> CHR ''W'' \<notin> set (toUpperCase ''calm'')"
    by code_simp
  from getWindDirectionIcon_by_letters [of "''calm''"] h
  have c: "getWindDirectionIcon ''calm'' = arrow_default" by blast
  from i u nw h c show ?thesis by blast
qed

text \<open>
  Claim C9. A direction whose upper-cased form holds \<open>S\<close> and \<open>E\<close> but no \<open>N\<close> gets the
  south-east arrow. The word \<open>West\<close> holds \<open>W\<close>, \<open>E\<close> and \<open>S\<close>, so it gets the
  south-east arrow and not the west arrow. The upper-cased form is that of Unicode: U+017F
  before \<open>e\<close> upper-cases to \<open>SE\<close> and gets the south-east arrow, and \<open>se\<close> before
  U+0149 upper-cases to a string with \<open>N\<close> and gets the north-east arrow.
\<close>

theorem getWindDirectionIcon_south_east:
  "(CHR ''S'' \<in> set (toUpperCase dir) \<and> CHR ''E'' \<in> set (toUpperCase dir) \<and>
      CHR ''N'' \<notin> set (toUpperCase dir) \<longrightarrow> getWindDirectionIcon dir = arrow_SE)
   \<and> toUpperCase ''West'' = ''WEST''
   \<and> getWindDirectionIcon ''West'' = arrow_SE
   \<and> arrow_SE \<noteq> arrow_W
   \<and> toUpperCase ([CHR 0xC5, CHR 0xBF] @ ''e'') = ''SE''
   \<and> getWindDirectionIcon ([CHR 0xC5, CHR 0xBF] @ ''e'') = arrow_SE
   \<and> toUpperCase (''se'' @ [CHR 0xC5, CHR 0x89]) = ''SE'' @ [CHR 0xCA, CHR 0xBC] @ ''N''
   \<and> getWindDirectionIcon (''se'' @ [CHR 0xC5, CHR 0x89]) = arrow_NE"
proof -
  have a: "CHR ''S'' \<in> set (toUpperCase dir) \<and> CHR ''E'' \<in> set (toUpperCase dir) \<and>
      CHR ''N'' \<notin> set (toUpperCase dir) \<longrightarrow> getWindDirectionIcon dir = arrow_SE"
    by (simp add: getWindDirectionIcon_arrow_by_letters arrow_by_letters_def)
  have b: "toUpperCase ''West'' = ''WEST''" "getWindDirectionIcon ''West'' = arrow_SE"
    by code_simp+
  have c: "arrow_SE \<noteq> arrow_W" by (simp add: arrow_SE_def arrow_W_def)
  have d: "toUpperCase ([CHR 0xC5, CHR 0xBF] @ ''e'') = ''SE''"
    "getWindDirectionIcon ([CHR 0xC5, CHR 0xBF] @ ''e'') = arrow_SE"
    "toUpperCase (''se'' @ [CHR 0xC5, CHR 0x89]) = ''SE'' @ [CHR 0xCA, CHR 0xBC] @ ''N''"
    "getWindDirectionIcon (''se'' @ [CHR 0xC5, CHR 0x89]) = arrow_NE"
    by code_simp+
  from a b c d show ?thesis by blast
qed

theorem getWindDirectionIcon_south_east_witness:
  "CHR ''S'' \<in> set (toUpperCase ''West'') \<and> CHR ''E'' \<in> set (toUpperCase ''West'')
   \<and> CHR ''N'' \<notin> set (toUpperCase ''West'') \<and> getWindDirectionIcon ''West'' = arrow_SE"
proof -
  have h: "CHR ''S'' \<in> set (toUpperCase ''West'') \<and> CHR ''E'' \<in> set (toUpperCase ''West'')
   \<and> CHR ''N'' \<notin> set (toUpperCase ''West'')" by code_simp
  from getWindDirectionIcon_south_east [of "''West''"] h show ?thesis by blast
qed

section \<open>Lemmas on the controller\<close>

lemma validation_None: "city st \<noteq> [] \<Longrightarrow> selectedDate st \<noteq> [] \<Longrightarrow> validation st = None"
  by (simp add: validation_def)

lemma validation_Some:
  "city st = [] \<or> selectedDate st = [] \<Longrightarrow>
   validation st = Some (if city st = [] then ''Please enter a city name.'' else ''Please select a date.'')"
  by (auto simp: validation_def)

lemma getWeather_invalid:
  "city st = [] \<or> selectedDate st = [] \<Longrightarrow>
   getWeather st outcome =
     [SetError (Some (if city st = [] then ''Please enter a city name.'' else ''Please select a date.''))]"
  by (simp add: getWeather_def getWeather_submit_def validation_Some)

lemma getWeather_submit_valid:
  "city st \<noteq> [] \<Longrightarrow> selectedDate st \<noteq> [] \<Longrightarrow>
   getWeather_submit st =
     [SetLoading True, SetWeather None, SetError None,
      GenerateContent \<lparr>for_city = city st, for_date = selectedDate st\<rparr>]"
  by (simp add: getWeather_submit_def validation_None)

lemma getWeather_valid:
  "city st \<noteq> [] \<Longrightarrow> selectedDate st \<noteq> [] \<Longrightarrow>
   getWeather st outcome = getWeather_submit st @ getWeather_settle (city st) outcome"
  by (simp add: getWeather_def validation_None)

lemma run_append: "run st (es @ fs) = run (run st es) fs"
  by (simp add: run_def)

lemma run_submit_valid:
  "city st \<noteq> [] \<Longrightarrow> selectedDate st \<noteq> [] \<Longrightarrow>
   run st (getWeather_submit st) = st\<lparr>loading := True, weather := None, error := None\<rparr>"
  by (simp add: getWeather_submit_valid run_def)

lemma run_getWeather_valid:
  "city st \<noteq> [] \<Longrightarrow> selectedDate st \<noteq> [] \<Longrightarrow>
   run st (getWeather st outcome) =
     run (st\<lparr>loading := True, weather := None, error := None\<rparr>) (getWeather_settle (city st) outcome)"
  by (simp add: getWeather_valid run_append run_submit_valid)

lemma settle_error_field:
  "wd_error p = Some e \<Longrightarrow> e \<noteq> [] \<Longrightarrow>
   getWeather_settle c (ResponseText (Some (JObject p))) = [SetError (Some e), SetLoading False]"
  by (simp add: getWeather_settle_def try_body_def truthy_def)


lemma settle_success:
  "\<not> truthy (wd_error p) \<Longrightarrow> truthy (wd_city p) \<Longrightarrow>
   getWeather_settle c (ResponseText (Some (JObject p))) = [SetWeather (Some p), SetLoading False]"
  by (simp add: getWeather_settle_def try_body_def)



lemma settle_unparsable:
  "getWeather_settle c (ResponseText None) =
     [SetError (Some ''The weather service returned an invalid response. Please try again.''),
      SetLoading False]"
  by (simp add: getWeather_settle_def try_body_def)

lemma run_two: "run st [a, b] = apply_effect (apply_effect st a) b"
  by (simp add: run_def)

lemma run_one: "run st [a] = apply_effect st a"
  by (simp add: run_def)

lemma final_error_field:
  assumes "city st \<noteq> []" and "selectedDate st \<noteq> []"
    and "wd_error p = Some e" and "e \<noteq> []"
  shows "run st (getWeather st (ResponseText (Some (JObject p)))) =
    st\<lparr>loading := False, weather := None, error := Some e\<rparr>"
  using assms by (simp add: run_getWeather_valid settle_error_field run_two)




lemma final_success:
  assumes "city st \<noteq> []" and "selectedDate st \<noteq> []"
    and "\<not> truthy (wd_error p)" and "truthy (wd_city p)"
  shows "run st (getWeather st (ResponseText (Some (JObject p)))) =
    st\<lparr>loading := False, weather := Some p, error := None\<rparr>"
  using assms by (simp add: run_getWeather_valid settle_success run_two)

lemma final_unparsable:
  assumes "city st \<noteq> []" and "selectedDate st \<noteq> []"
  shows "run st (getWeather st (ResponseText None)) =
    st\<lparr>loading := False, weather := None,
       error := Some ''The weather service returned an invalid response. Please try again.''\<rparr>"
  using assms by (simp add: run_getWeather_valid settle_unparsable run_two)

lemma final_invalid:
  assumes "city st = [] \<or> selectedDate st = []"
  shows "run st (getWeather st outcome) =
    st\<lparr>error := Some (if city st = [] then ''Please enter a city name.''
                      else ''Please select a date.'')\<rparr>"
  using assms by (simp add: getWeather_invalid run_one)


section \<open>Validation\<close>

text \<open>
  Claim C5. A submission with an empty city or an empty date issues no call, in the part of
  the handler before the \<^verbatim>\<open>await\<close> and in the whole of it; it sets no loading flag, so the
  flag and the skeleton stay as they were; and the validation message of the first failing
  guard is shown.
\<close>

theorem validation_failure_issues_no_call:
  assumes "city st = [] \<or> selectedDate st = []"
  shows "calls (getWeather st outcome) = []
    \<and> calls (getWeather_submit st) = []
    \<and> (\<forall>b. SetLoading b \<notin> set (getWeather st outcome))
    \<and> loading (run st (getWeather st outcome)) = loading st
    \<and> shows_skeleton (run st (getWeather st outcome)) = shows_skeleton st
    \<and> shown_error (run st (getWeather st outcome)) =
        Some (if city st = [] then ''Please enter a city name.'' else ''Please select a date.'')"
proof -
  have s: "getWeather_submit st =
     [SetError (Some (if city st = [] then ''Please enter a city name.'' else ''Please select a date.''))]"
    using assms by (simp add: getWeather_submit_def validation_Some)
  have e: "calls (getWeather st outcome) = []" "calls (getWeather_submit st) = []"
    "\<forall>b. SetLoading b \<notin> set (getWeather st outcome)"
    using assms by (simp_all add: getWeather_invalid s calls_def)
  have f: "loading (run st (getWeather st outcome)) = loading st"
    "shows_skeleton (run st (getWeather st outcome)) = shows_skeleton st"
    "shown_error (run st (getWeather st outcome)) =
        Some (if city st = [] then ''Please enter a city name.'' else ''Please select a date.'')"
    using assms by (simp_all add: final_invalid shown_error_def truthy_def shows_skeleton_def)
  from e f show ?thesis by blast
qed

theorem validation_failure_issues_no_call_witness:
  "city initial = []
   \<and> calls (getWeather initial (ResponseText (Some (JObject paris)))) = []
   \<and> loading (run initial (getWeather initial (ResponseText (Some (JObject paris))))) = loading initial
   \<and> shown_error (run initial (getWeather initial (ResponseText (Some (JObject paris))))) =
       Some ''Please enter a city name.''"
proof -
  have c: "city initial = []" by (simp add: initial_def)
  then have h: "city initial = [] \<or> selectedDate initial = []" by simp
  from validation_failure_issues_no_call [OF h, of "ResponseText (Some (JObject paris))"] c
  show ?thesis by simp
qed

text \<open>
  Claim C10. A submission that fails validation leaves the stored result as it is: a result
  that was rendered before stays rendered, now beside the validation message.
\<close>

theorem validation_failure_keeps_result:
  assumes "city st = [] \<or> selectedDate st = []"
  shows "weather (run st (getWeather st outcome)) = weather st
    \<and> shows_results (run st (getWeather st outcome)) = shows_results st
    \<and> shown_error (run st (getWeather st outcome)) = validation st
    \<and> validation st \<noteq> None"
  using assms
  by (simp add: final_invalid validation_Some shows_results_def shown_error_def truthy_def)

theorem validation_failure_keeps_result_witness:
  "city paris_shown = [] \<and> shows_results paris_shown
   \<and> shows_results (run paris_shown (getWeather paris_shown (ResponseText (Some (JObject paris)))))
   \<and> weather (run paris_shown (getWeather paris_shown (ResponseText (Some (JObject paris))))) = Some paris
   \<and> shown_error (run paris_shown (getWeather paris_shown (ResponseText (Some (JObject paris))))) =
       Some ''Please enter a city name.''"
proof -
  have c: "city paris_shown = []" by (simp add: paris_shown_def)
  then have h: "city paris_shown = [] \<or> selectedDate paris_shown = []" by simp
  have s: "shows_results paris_shown" "weather paris_shown = Some paris"
    by (simp_all add: shows_results_def paris_shown_def)
  have m: "validation paris_shown = Some ''Please enter a city name.''"
    by (simp add: validation_def c)
  from validation_failure_keeps_result [OF h, of "ResponseText (Some (JObject paris))"] c s m
  show ?thesis by simp
qed

section \<open>A submission in flight\<close>

text \<open>
  Claim C7. A submission that passes validation sets the loading flag and clears the stored
  result and the stored error before it issues the call: the three setters precede the call
  in the handler, the rest of the handler issues no further call, and in the state the
  request is in flight with, no result and no error message is displayed.
\<close>

theorem submission_clears_before_call:
  assumes "city st \<noteq> []" and "selectedDate st \<noteq> []"
  shows "getWeather_submit st =
      [SetLoading True, SetWeather None, SetError None,
       GenerateContent \<lparr>for_city = city st, for_date = selectedDate st\<rparr>]
    \<and> getWeather st outcome = getWeather_submit st @ getWeather_settle (city st) outcome
    \<and> calls (getWeather_settle (city st) outcome) = []
    \<and> weather (run st (getWeather_submit st)) = None
    \<and> error (run st (getWeather_submit st)) = None
    \<and> loading (run st (getWeather_submit st))
    \<and> \<not> shows_results (run st (getWeather_submit st))
    \<and> shown_error (run st (getWeather_submit st)) = None"
proof -
  have c: "calls (getWeather_settle (city st) outcome) = []"
    by (simp add: getWeather_settle_def try_body_def calls_def
        split: api_outcome.splits option.splits thrown.splits json_value.splits)
  show ?thesis
    using assms
    by (simp add: getWeather_submit_valid [symmetric] getWeather_valid c run_submit_valid
        shows_results_def shown_error_def truthy_def)
qed

theorem submission_clears_before_call_witness:
  "city asking_paris \<noteq> [] \<and> selectedDate asking_paris \<noteq> []
   \<and> weather asking_paris \<noteq> None \<and> error asking_paris \<noteq> None
   \<and> weather (run asking_paris (getWeather_submit asking_paris)) = None
   \<and> error (run asking_paris (getWeather_submit asking_paris)) = None
   \<and> shown_error (run asking_paris (getWeather_submit asking_paris)) = None
   \<and> \<not> shows_results (run asking_paris (getWeather_submit asking_paris))"
proof -
  have v: "city asking_paris \<noteq> []" "selectedDate asking_paris \<noteq> []"
    by (simp_all add: asking_paris_def)
  have p: "weather asking_paris \<noteq> None" "error asking_paris \<noteq> None"
    by (simp_all add: asking_paris_def)
  from submission_clears_before_call [OF v] v p show ?thesis by blast
qed

section \<open>Outcomes of the call\<close>

text \<open>
  Claim C6. When \<^verbatim>\<open>JSON.parse\<close> fails on the response text of a submission that passed
  validation, the handler ends with the invalid-response message as the error, which is
  shown, is not the generic message for a thrown non-\<^verbatim>\<open>Error\<close> value, and is not what
  a call that throws such a value leaves; no result is stored or rendered.
\<close>

theorem unparsable_response_is_an_error:
  assumes "city st \<noteq> []" and "selectedDate st \<noteq> []"
  shows "error (run st (getWeather st (ResponseText None))) =
      Some ''The weather service returned an invalid response. Please try again.''
    \<and> shown_error (run st (getWeather st (ResponseText None))) =
      Some ''The weather service returned an invalid response. Please try again.''
    \<and> ''The weather service returned an invalid response. Please try again.'' \<noteq>
      ''An unexpected API error occurred. Please try again later.''
    \<and> error (run st (getWeather st (ResponseText None))) \<noteq>
      error (run st (getWeather st (CallThrows OtherThrown)))
    \<and> weather (run st (getWeather st (ResponseText None))) = None
    \<and> \<not> shows_results (run st (getWeather st (ResponseText None)))
    \<and> \<not> loading (run st (getWeather st (ResponseText None)))"
proof -
  have g: "run st (getWeather st (CallThrows OtherThrown)) =
    st\<lparr>loading := False, weather := None,
       error := Some ''An unexpected API error occurred. Please try again later.''\<rparr>"
    using assms
    by (simp add: run_getWeather_valid getWeather_settle_def try_body_def run_two)
  show ?thesis
    using assms
    by (simp add: final_unparsable g shown_error_def shows_results_def truthy_def)
qed

theorem unparsable_response_is_an_error_witness:
  "city asking_paris \<noteq> [] \<and> selectedDate asking_paris \<noteq> []
   \<and> shown_error (run asking_paris (getWeather asking_paris (ResponseText None))) =
      Some ''The weather service returned an invalid response. Please try again.''
   \<and> \<not> shows_results (run asking_paris (getWeather asking_paris (ResponseText None)))"
proof -
  have v: "city asking_paris \<noteq> []" "selectedDate asking_paris \<noteq> []"
    by (simp_all add: asking_paris_def)
  from unparsable_response_is_an_error [OF v] v show ?thesis by blast
qed

text \<open>
  Claim C1, amended. For a submission that passed validation and a parsed payload whose
  \<^verbatim>\<open>error\<close> field is present and not the empty string, whatever the other fields hold,
  the handler ends with exactly that string as the error, which is shown, and no result is
  stored or rendered.
\<close>

theorem error_field_authoritative:
  assumes "city st \<noteq> []" and "selectedDate st \<noteq> []"
    and "wd_error p = Some e" and "e \<noteq> []"
  shows "error (run st (getWeather st (ResponseText (Some (JObject p))))) = Some e
    \<and> shown_error (run st (getWeather st (ResponseText (Some (JObject p))))) = Some e
    \<and> weather (run st (getWeather st (ResponseText (Some (JObject p))))) = None
    \<and> \<not> shows_results (run st (getWeather st (ResponseText (Some (JObject p)))))
    \<and> \<not> loading (run st (getWeather st (ResponseText (Some (JObject p)))))"
  using assms
  by (simp add: final_error_field shown_error_def shows_results_def truthy_def)

theorem error_field_authoritative_witness:
  "city asking_paris \<noteq> [] \<and> selectedDate asking_paris \<noteq> []
   \<and> wd_error (paris\<lparr>wd_error := Some ''City not found.''\<rparr>) = Some ''City not found.''
   \<and> wd_city (paris\<lparr>wd_error := Some ''City not found.''\<rparr>) = Some ''Paris''
   \<and> shown_error (run asking_paris (getWeather asking_paris
        (ResponseText (Some (JObject (paris\<lparr>wd_error := Some ''City not found.''\<rparr>)))))) = Some ''City not found.''
   \<and> \<not> shows_results (run asking_paris (getWeather asking_paris
        (ResponseText (Some (JObject (paris\<lparr>wd_error := Some ''City not found.''\<rparr>))))))"
proof -
  have v: "city asking_paris \<noteq> []" "selectedDate asking_paris \<noteq> []"
    by (simp_all add: asking_paris_def)
  have e: "wd_error (paris\<lparr>wd_error := Some ''City not found.''\<rparr>) = Some ''City not found.''"
    "''City not found.'' \<noteq> []"
    by simp_all
  have c: "wd_city (paris\<lparr>wd_error := Some ''City not found.''\<rparr>) = Some ''Paris''"
    by (simp add: paris_def)
  from error_field_authoritative [OF v e] v e c show ?thesis by blast
qed

text \<open>
  The claim as it is written, for every payload in which the \<^verbatim>\<open>error\<close> field is present,
  fails on a payload with the field present and empty beside a city: the guard
  \<^verbatim>\<open>if (weatherData.error)\<close> tests truthiness, the payload is stored as the result and
  rendered, and no error is set.
\<close>

theorem error_field_present_counterexample:
  "wd_error (paris\<lparr>wd_error := Some []\<rparr>) \<noteq> None
   \<and> wd_city (paris\<lparr>wd_error := Some []\<rparr>) \<noteq> None
   \<and> city asking_paris \<noteq> [] \<and> selectedDate asking_paris \<noteq> []
   \<and> error (run asking_paris (getWeather asking_paris (ResponseText (Some (JObject (paris\<lparr>wd_error := Some []\<rparr>)))))) = None
   \<and> weather (run asking_paris (getWeather asking_paris (ResponseText (Some (JObject (paris\<lparr>wd_error := Some []\<rparr>))))))
       = Some (paris\<lparr>wd_error := Some []\<rparr>)
   \<and> shows_results (run asking_paris (getWeather asking_paris (ResponseText (Some (JObject (paris\<lparr>wd_error := Some []\<rparr>))))))"
proof -
  have v: "city asking_paris \<noteq> []" "selectedDate asking_paris \<noteq> []"
    by (simp_all add: asking_paris_def)
  have t: "\<not> truthy (wd_error (paris\<lparr>wd_error := Some []\<rparr>))"
    "truthy (wd_city (paris\<lparr>wd_error := Some []\<rparr>))"
    by (simp_all add: truthy_def paris_def)
  show ?thesis
    using v by (simp add: final_success [OF v t] shows_results_def) (simp add: paris_def)
qed




end
